theory Spec2Isabelle
  imports Complex_Main
begin

section \<open>The moving-average ribbon strategy (ma-ribbon.py)\<close>

text \<open>
  The strategy is a set of callbacks run by a backtesting host. The embedding follows
  the source function by function. Python floats are modelled as exact real numbers:
  rounding is not represented, and a division whose divisor is zero, which in numpy
  yields nan or inf together with a RuntimeWarning, is an error value of the model.
\<close>

subsection \<open>Data\<close>

type_synonym security = nat

datatype error = KeyError | ZeroDivision | EmptyData

text \<open>
  The host's \<open>data\<close> object: the benchmark's daily prices (oldest first, the latest
  last) and the tradability predicate \<open>data.can_trade\<close>.
\<close>

record bar_data =
  price_history :: "real list"
  can_trade :: "security \<Rightarrow> bool"

subsection \<open>Library functions used by the allocator\<close>

text \<open>Python's \<open>range(start, stop, step)\<close> for a positive step.\<close>

definition py_range :: "nat \<Rightarrow> nat \<Rightarrow> nat \<Rightarrow> nat list" where
  "py_range start stop step =
     map (\<lambda>k. start + k * step) [0..<(stop - start + step - 1) div step]"

text \<open>
  Modelled from the spec: the host's \<open>data.history(asset, fields='price', bar_count=i,
  frequency='1d')\<close> is not part of the source; it returns the trailing \<open>bar_count\<close>
  daily prices of the benchmark. What the host returns when fewer than \<open>bar_count\<close>
  prices exist is not modelled; the results about values assume 24 prices or more.
\<close>

definition history :: "bar_data \<Rightarrow> nat \<Rightarrow> real list" where
  "history d bar_count =
     (let ps = price_history d in drop (length ps - bar_count) ps)"

text \<open>
  The arithmetic mean of a series (\<open>Series.mean\<close>, \<open>np.average\<close>). On empty
  data the libraries give nan, which the model does not represent; with a price or
  more in the history every series the allocator averages is non-empty.
\<close>

definition series_mean :: "real list \<Rightarrow> real" where
  "series_mean xs = sum_list xs / real (length xs)"


text \<open>
  Modelled from the spec: \<open>np.percentile\<close> is a library function that is not part of
  the source; the spec reads its 0th and 100th percentile as the exact minimum and
  maximum. The model is the library's default method, linear interpolation between
  the two order statistics around the position \<open>(n - 1) * q / 100\<close> of the sorted
  data, and that reading is proved of it below.
\<close>

definition percentile1 :: "real list \<Rightarrow> real \<Rightarrow> real" where
  "percentile1 a q =
     (let s = sort a;
          n = length a;
          pos = real (n - 1) * q / 100;
          lo = nat \<lfloor>pos\<rfloor>;
          hi = min (lo + 1) (n - 1);
          g = pos - real lo
      in s ! lo + g * (s ! hi - s ! lo))"

definition np_percentile :: "real list \<Rightarrow> real list \<Rightarrow> error + real list" where
  "np_percentile a qs = (if a = [] then Inl EmptyData else Inr (map (percentile1 a) qs))"


subsection \<open>The allocator: \<open>before_trading_start\<close>, lines 86 to 111\<close>

text \<open>
  First loop: \<open>for i in range(2,25,2): mean_group[i] = history(i).mean()\<close>.
\<close>

fun mean_group_loop :: "bar_data \<Rightarrow> nat list \<Rightarrow> (nat \<rightharpoonup> real) \<Rightarrow> (nat \<rightharpoonup> real)" where
  "mean_group_loop d [] mean_group = mean_group"
| "mean_group_loop d (i # rest) mean_group =
     mean_group_loop d rest (mean_group(i \<mapsto> series_mean (history d i)))"

text \<open>
  Second loop: \<open>for i in range(2,25,2): if i < 23: sum_distance.append(mean_group[i]
  - mean_group[i + 2])\<close>. A missing key raises \<open>KeyError\<close>.
\<close>

fun sum_distance_loop :: "(nat \<rightharpoonup> real) \<Rightarrow> nat list \<Rightarrow> real list \<Rightarrow> error + real list" where
  "sum_distance_loop mean_group [] sum_distance = Inr sum_distance"
| "sum_distance_loop mean_group (i # rest) sum_distance =
     (if i < 23 then
        (case mean_group i of
           None \<Rightarrow> Inl KeyError
         | Some a \<Rightarrow>
            (case mean_group (i + 2) of
               None \<Rightarrow> Inl KeyError
             | Some b \<Rightarrow> sum_distance_loop mean_group rest (sum_distance @ [a - b])))
      else sum_distance_loop mean_group rest sum_distance)"

text \<open>Lines 97 and 98: \<open>high_low = np.percentile(sum_distance, [0, 100])\<close> and
  \<open>abs_diff = sum(abs(high_low))\<close>.\<close>

definition abs_diff_of :: "real list \<Rightarrow> error + real" where
  "abs_diff_of sum_distance =
     (case np_percentile sum_distance [0, 100] of
        Inl e \<Rightarrow> Inl e
      | Inr high_low \<Rightarrow> Inr (sum_list (map abs high_low)))"


text \<open>The two lists the allocator builds before it normalizes.\<close>

definition mean_group_of :: "bar_data \<Rightarrow> (nat \<rightharpoonup> real)" where
  "mean_group_of d = mean_group_loop d (py_range 2 25 2) Map.empty"

definition sum_distance_of :: "bar_data \<Rightarrow> error + real list" where
  "sum_distance_of d = sum_distance_loop (mean_group_of d) (py_range 2 25 2) []"

subsection \<open>The pipeline: \<open>make_pipeline\<close>, lines 44 to 76\<close>

text \<open>
  One security's attributes for the day, as the host's pipeline engine hands them to
  the filters: latest close, latest volume, market capitalization, two-day return, and
  membership in the base universe.
\<close>

record daily_snapshot =
  snap_close :: real
  snap_volume :: real
  snap_market_cap :: real
  snap_weekly_return :: real
  snap_in_Q1500US :: bool

text \<open>
  Pipeline terms are objects that the host evaluates later; comparison operators on a
  factor and \<open>&\<close>, \<open>|\<close> on filters build new terms.
\<close>

datatype pipe_factor = Close_latest | Volume_latest | MarketCap | WeeklyReturn

datatype pipe_filter =
    Q1500US
  | Ge pipe_factor real
  | Le pipe_factor real
  | Gt pipe_factor real
  | Lt pipe_factor real
  | And_filter pipe_filter pipe_filter
  | Or_filter pipe_filter pipe_filter

fun factor_value :: "daily_snapshot \<Rightarrow> pipe_factor \<Rightarrow> real" where
  "factor_value snap Close_latest = snap_close snap"
| "factor_value snap Volume_latest = snap_volume snap"
| "factor_value snap MarketCap = snap_market_cap snap"
| "factor_value snap WeeklyReturn = snap_weekly_return snap"

fun filter_value :: "daily_snapshot \<Rightarrow> pipe_filter \<Rightarrow> bool" where
  "filter_value snap Q1500US = snap_in_Q1500US snap"
| "filter_value snap (Ge f v) = (factor_value snap f \<ge> v)"
| "filter_value snap (Le f v) = (factor_value snap f \<le> v)"
| "filter_value snap (Gt f v) = (factor_value snap f > v)"
| "filter_value snap (Lt f v) = (factor_value snap f < v)"
| "filter_value snap (And_filter a b) = (filter_value snap a \<and> filter_value snap b)"
| "filter_value snap (Or_filter a b) = (filter_value snap a \<or> filter_value snap b)"

text \<open>
  Modelled from the spec: the host's filter class is not part of the source. It defines
  no truth value of its own, so Python's default applies and every filter object is
  true in a boolean context.
\<close>

definition truthy :: "pipe_filter \<Rightarrow> bool" where
  "truthy f = True"

text \<open>Python's \<open>a and b\<close>: \<open>b\<close> when \<open>a\<close> is true in a boolean context, else \<open>a\<close>.\<close>

definition py_and :: "pipe_filter \<Rightarrow> pipe_filter \<Rightarrow> pipe_filter" where
  "py_and a b = (if truthy a then b else a)"

definition above_micro :: pipe_filter where
  "above_micro = Ge MarketCap 50000000"

definition price_range :: pipe_filter where
  "price_range = py_and (Ge Close_latest 1) (Le Close_latest 15.00)"

definition highly_liquid :: pipe_filter where
  "highly_liquid = Ge Volume_latest 1000000"

definition long_position :: pipe_filter where
  "long_position = Gt WeeklyReturn 0"

definition short_position :: pipe_filter where
  "short_position = Lt WeeklyReturn 0"

definition is_tradable :: pipe_filter where
  "is_tradable =
     And_filter (And_filter (And_filter above_micro price_range) highly_liquid)
       (Or_filter long_position short_position)"





subsection \<open>Orders\<close>

text \<open>
  The host's \<open>order_target_percent\<close> submits an order; the model appends it to the
  day's order log. The host fills orders after the callback has returned, so the set
  of held securities does not change during a rebalance.
\<close>

type_synonym order = "security \<times> real"

definition order_target_percent :: "security \<Rightarrow> real \<Rightarrow> order list \<Rightarrow> order list" where
  "order_target_percent s target orders = orders @ [(s, target)]"

text \<open>
  The two ordering loops of \<open>my_rebalance\<close> (lines 135 to 138 with \<open>long_weight\<close>,
  lines 141 to 144 with \<open>-short_weight\<close>).
\<close>

fun open_loop ::
  "bar_data \<Rightarrow> security list \<Rightarrow> security list \<Rightarrow> real \<Rightarrow> order list \<Rightarrow> order list" where
  "open_loop d my_positions [] weight orders = orders"
| "open_loop d my_positions (s # rest) weight orders =
     open_loop d my_positions rest weight
       (if can_trade d s then
          (if s \<notin> set my_positions then order_target_percent s weight orders else orders)
        else orders)"

text \<open>The loop of \<open>daily_clean\<close> over the held securities.\<close>

fun daily_clean_loop ::
  "bar_data \<Rightarrow> security list \<Rightarrow> security list \<Rightarrow> order list \<Rightarrow> order list" where
  "daily_clean_loop d listed [] orders = orders"
| "daily_clean_loop d listed (stock # rest) orders =
     daily_clean_loop d listed rest
       (if stock \<notin> set listed \<and> can_trade d stock
        then order_target_percent stock 0 orders else orders)"

subsection \<open>The callbacks\<close>

text \<open>
  The fields the callbacks keep on the host's \<open>context\<close> object; \<open>positions\<close> are
  the securities held in \<open>context.portfolio.positions\<close>.
\<close>

record algo_context =
  allocations :: real
  long_allocations :: real
  short_allocations :: real
  security_list :: "security list"
  longs :: "security list"
  shorts :: "security list"
  positions :: "security list"


definition daily_clean :: "algo_context \<Rightarrow> bar_data \<Rightarrow> order list \<Rightarrow> order list" where
  "daily_clean ctx d orders = daily_clean_loop d (security_list ctx) (positions ctx) orders"

definition my_rebalance :: "algo_context \<Rightarrow> bar_data \<Rightarrow> order list \<Rightarrow> order list" where
  "my_rebalance ctx d orders =
     (let my_positions = positions ctx;
          opened =
            (if length (longs ctx) > 0 \<and> length (shorts ctx) > 0 then
               (let long_weight = long_allocations ctx / real (length (longs ctx));
                    short_weight = short_allocations ctx / real (length (shorts ctx));
                    after_longs = open_loop d my_positions (longs ctx) long_weight orders
                in open_loop d my_positions (shorts ctx) (- short_weight) after_longs)
             else orders)
      in daily_clean ctx d opened)"


subsection \<open>Concrete days used to run the definitions\<close>


definition rising_data :: bar_data where
  "rising_data =
     \<lparr>price_history = [1, 2, 3, 4, 5, 6, 7, 8, 9, 10, 11, 12,
                        13, 14, 15, 16, 17, 18, 19, 20, 21, 22, 23, 24],
      can_trade = (\<lambda>s. True)\<rparr>"

definition flat_data :: bar_data where
  "flat_data = \<lparr>price_history = replicate 24 100, can_trade = (\<lambda>s. True)\<rparr>"


text \<open>A security that closed at fifty cents with ample capitalization and volume.\<close>

definition penny_stock :: daily_snapshot where
  "penny_stock =
     \<lparr>snap_close = 0.5, snap_volume = 2000000, snap_market_cap = 100000000,
      snap_weekly_return = 25, snap_in_Q1500US = True\<rparr>"

text \<open>
  A rebalance day: securities 1 and 2 are long candidates, 3 is a short candidate;
  2 and 7 are held, 7 has left the list, and 3 cannot be traded.
\<close>

definition day_ctx :: algo_context where
  "day_ctx = \<lparr>allocations = 0.1, long_allocations = 0.6, short_allocations = 0.4,
              security_list = [1, 2, 3, 4], longs = [1, 2], shorts = [3, 4],
              positions = [2, 7]\<rparr>"

definition day_data :: bar_data where
  "day_data = \<lparr>price_history = [], can_trade = (\<lambda>s. s \<noteq> 3)\<rparr>"

text \<open>The same day with no short candidates.\<close>

definition no_shorts_ctx :: algo_context where
  "no_shorts_ctx = day_ctx\<lparr>security_list := [1, 2], shorts := []\<rparr>"

section \<open>Properties\<close>

subsection \<open>The loops in closed form\<close>

lemma py_range_ribbon: "py_range 2 25 2 = [2, 4, 6, 8, 10, 12, 14, 16, 18, 20, 22, 24]"
  by code_simp


subsection \<open>Percentiles at the two ends\<close>

lemma sorted_hd_Min:
  fixes xs :: "real list"
  assumes "sorted xs" "xs \<noteq> []"
  shows "xs ! 0 = Min (set xs)"
proof -
  obtain y ys where xs: "xs = y # ys" using assms(2) by (cases xs) auto
  have "Min (set xs) = y"
    using assms(1) unfolding xs by (intro Min_eqI) auto
  then show ?thesis by (simp add: xs)
qed

lemma sorted_last_Max:
  fixes xs :: "real list"
  assumes "sorted xs" "xs \<noteq> []"
  shows "xs ! (length xs - 1) = Max (set xs)"
proof -
  have "Max (set xs) = xs ! (length xs - 1)"
  proof (rule Max_eqI)
    show "finite (set xs)" by simp
  next
    fix y assume "y \<in> set xs"
    then obtain i where i: "i < length xs" "xs ! i = y" by (auto simp: in_set_conv_nth)
    then have "xs ! i \<le> xs ! (length xs - 1)"
      using assms(1) by (intro sorted_nth_mono) auto
    then show "y \<le> xs ! (length xs - 1)" using i by simp
  next
    show "xs ! (length xs - 1) \<in> set xs" using assms(2) by simp
  qed
  then show ?thesis by simp
qed

lemma percentile1_0:
  assumes "a \<noteq> []"
  shows "percentile1 a 0 = Min (set a)"
proof -
  have ne: "sort a \<noteq> []"
    using assms by (metis length_sort length_0_conv)
  have "sort a ! 0 = Min (set (sort a))"
    using ne by (intro sorted_hd_Min) auto
  then show ?thesis by (simp add: percentile1_def Let_def)
qed

lemma percentile1_100:
  assumes "a \<noteq> []"
  shows "percentile1 a 100 = Max (set a)"
proof -
  have ne: "sort a \<noteq> []"
    using assms by (metis length_sort length_0_conv)
  have "sort a ! (length (sort a) - 1) = Max (set (sort a))"
    using ne by (intro sorted_last_Max) auto
  then show ?thesis by (simp add: percentile1_def Let_def)
qed

lemma np_percentile_0_100:
  "a \<noteq> [] \<Longrightarrow> np_percentile a [0, 100] = Inr [Min (set a), Max (set a)]"
  by (simp add: np_percentile_def percentile1_0 percentile1_100)

lemma abs_diff_of_Min_Max:
  "a \<noteq> [] \<Longrightarrow> abs_diff_of a = Inr (\<bar>Min (set a)\<bar> + \<bar>Max (set a)\<bar>)"
  by (simp add: abs_diff_of_def np_percentile_0_100)

subsection \<open>The allocator step by step\<close>

lemma mean_group_of_eq:
  "mean_group_of d =
     (let m = (\<lambda>i. series_mean (history d i)) in
      [2 \<mapsto> m 2, 4 \<mapsto> m 4, 6 \<mapsto> m 6, 8 \<mapsto> m 8, 10 \<mapsto> m 10, 12 \<mapsto> m 12, 14 \<mapsto> m 14,
       16 \<mapsto> m 16, 18 \<mapsto> m 18, 20 \<mapsto> m 20, 22 \<mapsto> m 22, 24 \<mapsto> m 24])"
  by (simp add: mean_group_of_def py_range_ribbon)

lemma sum_distance_of_eq:
  "sum_distance_of d =
     Inr (map (\<lambda>i. series_mean (history d i) - series_mean (history d (i + 2)))
            [2, 4, 6, 8, 10, 12, 14, 16, 18, 20, 22])"
  by (simp add: sum_distance_of_def mean_group_of_eq py_range_ribbon)





lemma sum_distance_of_nonempty: "sum_distance_of d = Inr sd \<Longrightarrow> sd \<noteq> []"
  by (auto simp: sum_distance_of_eq)





subsection \<open>Means of trailing windows\<close>






subsection \<open>The concrete days\<close>



lemma flat_sum_distance:
  "sum_distance_of flat_data = Inr [0, 0, 0, 0, 0, 0, 0, 0, 0, 0, 0]"
  by (simp add: sum_distance_of_eq flat_data_def history_def series_mean_def sum_list_replicate)



subsection \<open>Windows of a rising and of a flat history\<close>








subsection \<open>The order log of a rebalance in closed form\<close>

lemma open_loop_eq:
  "open_loop d held xs w orders =
     orders @ map (\<lambda>s. (s, w)) (filter (\<lambda>s. can_trade d s \<and> s \<notin> set held) xs)"
  by (induction xs arbitrary: orders) (simp_all add: order_target_percent_def)

lemma daily_clean_loop_eq:
  "daily_clean_loop d listed held orders =
     orders @ map (\<lambda>s. (s, 0)) (filter (\<lambda>s. s \<notin> set listed \<and> can_trade d s) held)"
  by (induction held arbitrary: orders) (simp_all add: order_target_percent_def)

lemma daily_clean_eq:
  "daily_clean ctx d orders =
     orders @ map (\<lambda>s. (s, 0))
       (filter (\<lambda>s. s \<notin> set (security_list ctx) \<and> can_trade d s) (positions ctx))"
  by (simp add: daily_clean_def daily_clean_loop_eq)

lemma my_rebalance_eq:
  "my_rebalance ctx d orders =
     orders @
     (if longs ctx \<noteq> [] \<and> shorts ctx \<noteq> [] then
        map (\<lambda>s. (s, long_allocations ctx / real (length (longs ctx))))
          (filter (\<lambda>s. can_trade d s \<and> s \<notin> set (positions ctx)) (longs ctx)) @
        map (\<lambda>s. (s, - (short_allocations ctx / real (length (shorts ctx)))))
          (filter (\<lambda>s. can_trade d s \<and> s \<notin> set (positions ctx)) (shorts ctx))
      else []) @
     map (\<lambda>s. (s, 0))
       (filter (\<lambda>s. s \<notin> set (security_list ctx) \<and> can_trade d s) (positions ctx))"
  by (simp add: my_rebalance_def Let_def daily_clean_eq open_loop_eq)

lemma day_orders: "my_rebalance day_ctx day_data [] = [(1, 3 / 10), (4, - (1 / 5)), (7, 0)]"
  by (simp add: my_rebalance_eq day_ctx_def day_data_def)

lemma no_shorts_orders: "my_rebalance no_shorts_ctx day_data [] = [(7, 0)]"
  by (simp add: my_rebalance_eq no_shorts_ctx_def day_ctx_def day_data_def)

section \<open>The claims\<close>

subsection \<open>The allocator\<close>





text \<open>
  C3 as stated, that the guard \<open>i < 23\<close> leaves ten differences and never uses window
  24, fails: on the rising day the list has eleven entries and its last entry is the
  mean of window 22 minus the mean of window 24.
\<close>

theorem ribbon_has_ten_differences_counterexample:
  "map_sum id length (sum_distance_of rising_data) = Inr 11 \<and>
   map_sum id last (sum_distance_of rising_data) =
     Inr (series_mean (history rising_data 22) - series_mean (history rising_data 24))"
  by (simp add: sum_distance_of_eq)

text \<open>
  C3, amended: the allocator computes the means of the twelve windows 2, 4, ..., 24 and
  differences the eleven adjacent pairs 2-4 through 22-24, each a shorter-window mean
  minus the next longer-window mean. The guard \<open>i < 23\<close> only skips \<open>i = 24\<close>, which
  has no longer window; window 24 is used in the last difference.
\<close>

theorem ribbon_differences:
  "map (mean_group_of d) (py_range 2 25 2) =
     map (\<lambda>i. Some (series_mean (history d i))) [2, 4, 6, 8, 10, 12, 14, 16, 18, 20, 22, 24] \<and>
   dom (mean_group_of d) = {2, 4, 6, 8, 10, 12, 14, 16, 18, 20, 22, 24} \<and>
   sum_distance_of d =
     Inr (map (\<lambda>i. series_mean (history d i) - series_mean (history d (i + 2)))
            [2, 4, 6, 8, 10, 12, 14, 16, 18, 20, 22]) \<and>
   map_sum id length (sum_distance_of d) = Inr 11"
proof -
  have a: "map (mean_group_of d) (py_range 2 25 2) =
     map (\<lambda>i. Some (series_mean (history d i))) [2, 4, 6, 8, 10, 12, 14, 16, 18, 20, 22, 24]"
    by (simp add: mean_group_of_eq py_range_ribbon)
  have b: "dom (mean_group_of d) = {2, 4, 6, 8, 10, 12, 14, 16, 18, 20, 22, 24}"
    unfolding mean_group_of_eq Let_def dom_fun_upd by auto
  have c: "map_sum id length (sum_distance_of d) = Inr 11"
    by (simp add: sum_distance_of_eq)
  show ?thesis using a b c sum_distance_of_eq [of d] by blast
qed

text \<open>
  C6: the 0th and the 100th percentile of the differences are their minimum and their
  maximum, and the normalizing scale \<open>abs_diff\<close> is the sum of the absolute values
  of the two.
\<close>

theorem scale_is_abs_min_plus_abs_max:
  "\<exists>sd. sum_distance_of d = Inr sd \<and>
        np_percentile sd [0, 100] = Inr [Min (set sd), Max (set sd)] \<and>
        abs_diff_of sd = Inr (\<bar>Min (set sd)\<bar> + \<bar>Max (set sd)\<bar>)"
proof -
  obtain sd where sd: "sum_distance_of d = Inr sd"
    by (auto simp: sum_distance_of_eq)
  then have ne: "sd \<noteq> []" by (rule sum_distance_of_nonempty)
  show ?thesis
    using sd np_percentile_0_100 [OF ne] abs_diff_of_Min_Max [OF ne] by blast
qed







subsection \<open>The rebalancer\<close>

text \<open>
  C7: on a rebalance where the long list and the short list are both non-empty, every
  security of the long list that is tradable and not held gets a target-percent order
  of exactly \<open>long_allocations / len(longs)\<close>, and every security of the short list
  that is tradable and not held gets one of exactly
  \<open>- (short_allocations / len(shorts))\<close>; if either list is empty, the order log is
  what the cleanup pass alone produces.
\<close>

theorem rebalance_opens_positions:
  "(longs ctx \<noteq> [] \<and> shorts ctx \<noteq> [] \<longrightarrow>
      (\<forall>s \<in> set (longs ctx). can_trade d s \<and> s \<notin> set (positions ctx) \<longrightarrow>
         (s, long_allocations ctx / real (length (longs ctx))) \<in> set (my_rebalance ctx d [])) \<and>
      (\<forall>s \<in> set (shorts ctx). can_trade d s \<and> s \<notin> set (positions ctx) \<longrightarrow>
         (s, - (short_allocations ctx / real (length (shorts ctx)))) \<in> set (my_rebalance ctx d []))) \<and>
   (longs ctx = [] \<or> shorts ctx = [] \<longrightarrow> my_rebalance ctx d [] = daily_clean ctx d [])"
  by (auto simp: my_rebalance_eq daily_clean_eq)

theorem rebalance_opens_positions_witness:
  "longs day_ctx \<noteq> [] \<and> shorts day_ctx \<noteq> [] \<and>
   1 \<in> set (longs day_ctx) \<and> can_trade day_data 1 \<and> 1 \<notin> set (positions day_ctx) \<and>
   (1, 3 / 10) \<in> set (my_rebalance day_ctx day_data []) \<and>
   4 \<in> set (shorts day_ctx) \<and> can_trade day_data 4 \<and> 4 \<notin> set (positions day_ctx) \<and>
   (4, - (1 / 5)) \<in> set (my_rebalance day_ctx day_data []) \<and>
   shorts no_shorts_ctx = [] \<and>
   my_rebalance no_shorts_ctx day_data [] = daily_clean no_shorts_ctx day_data []"
  using rebalance_opens_positions [of day_ctx day_data]
    rebalance_opens_positions [of no_shorts_ctx day_data]
  by (simp add: day_ctx_def day_data_def no_shorts_ctx_def)

text \<open>
  C8: on every rebalance, whatever the long and the short list hold, the cleanup pass
  runs last, and every held security that is absent from \<open>security_list\<close> and is
  tradable gets a target-percent order of 0.
\<close>

theorem cleanup_flattens_delisted_holdings:
  "(\<exists>opened. my_rebalance ctx d [] = daily_clean ctx d opened) \<and>
   (\<forall>s \<in> set (positions ctx). s \<notin> set (security_list ctx) \<and> can_trade d s \<longrightarrow>
      (s, 0) \<in> set (my_rebalance ctx d []))"
proof
  show "\<exists>opened. my_rebalance ctx d [] = daily_clean ctx d opened"
    by (auto simp: my_rebalance_def Let_def)
  show "\<forall>s \<in> set (positions ctx). s \<notin> set (security_list ctx) \<and> can_trade d s \<longrightarrow>
      (s, 0) \<in> set (my_rebalance ctx d [])"
    by (auto simp: my_rebalance_eq)
qed

theorem cleanup_flattens_delisted_holdings_witness:
  "shorts no_shorts_ctx = [] \<and> 7 \<in> set (positions no_shorts_ctx) \<and>
   7 \<notin> set (security_list no_shorts_ctx) \<and> can_trade day_data 7 \<and>
   (7, 0) \<in> set (my_rebalance no_shorts_ctx day_data [])"
  using cleanup_flattens_delisted_holdings [of no_shorts_ctx day_data]
  by (simp add: day_ctx_def day_data_def no_shorts_ctx_def)

text \<open>
  C9: on every rebalance, a held security that appears in \<open>security_list\<close> gets no
  order of any kind: the ordering loops skip it because it is held, the cleanup pass
  because it is listed.
\<close>

theorem held_listed_security_gets_no_order:
  assumes "s \<in> set (positions ctx)" and "s \<in> set (security_list ctx)"
  shows "s \<notin> fst ` set (my_rebalance ctx d [])"
  using assms by (auto simp: my_rebalance_eq)

theorem held_listed_security_gets_no_order_witness:
  "2 \<in> set (positions day_ctx) \<and> 2 \<in> set (security_list day_ctx) \<and>
   2 \<in> set (longs day_ctx) \<and> can_trade day_data 2 \<and>
   2 \<notin> fst ` set (my_rebalance day_ctx day_data [])"
proof -
  have h1: "2 \<in> set (positions day_ctx)" by (simp add: day_ctx_def)
  have h2: "2 \<in> set (security_list day_ctx)" by (simp add: day_ctx_def)
  show ?thesis
    using h1 h2 held_listed_security_gets_no_order [OF h1 h2, of day_data]
    by (simp add: day_ctx_def day_data_def)
qed

subsection \<open>The universe filter\<close>

text \<open>
  C2: the price-range condition \<open>(close.latest >= 1 and close.latest <= 15.00)\<close> is
  the upper-bound comparison alone, so the lower bound is not enforced: whether a
  security passes \<open>is_tradable\<close> is decided by its capitalization, the upper bound
  on its close, its volume and the sign of its return, and a security that closed
  below 1 passes.
\<close>

theorem price_range_is_upper_bound_only:
  "price_range = Le Close_latest 15 \<and>
   (\<forall>snap. filter_value snap price_range = (snap_close snap \<le> 15)) \<and>
   (\<forall>snap. filter_value snap is_tradable =
      (50000000 \<le> snap_market_cap snap \<and> snap_close snap \<le> 15 \<and>
       1000000 \<le> snap_volume snap \<and>
       (0 < snap_weekly_return snap \<or> snap_weekly_return snap < 0))) \<and>
   snap_close penny_stock < 1 \<and> filter_value penny_stock is_tradable"
  by (simp add: price_range_def py_and_def truthy_def is_tradable_def above_micro_def
      highly_liquid_def long_position_def short_position_def penny_stock_def)

end
